theory Spec2Isabelle
  imports Complex_Main
begin

section \<open>JavaScript values and built-ins used by the API\<close>

text \<open>
  Strings are lists of code units. The model uses \<^typ>\<open>string\<close>, so it covers the
  code units \<open>0x00..0xFF\<close>; \<open>length\<close>, \<open>take\<close> and \<open>drop\<close> count code units, as
  \<^verbatim>\<open>String.prototype.substring\<close> does.

  A decoded JSON text is a \<open>json\<close> value; \<open>json option\<close> adds \<^verbatim>\<open>undefined\<close>
  (\<open>None\<close>). Numbers are the reals that finite Number values denote. An object is the
  list of its own properties; the parser delivers one entry per key.
\<close>

datatype json =
    JNull
  | JBool bool
  | JNumber real
  | JString string
  | JArray "json list"
  | JObject "(string \<times> json) list"

text \<open>
  What a \<^verbatim>\<open>throw\<close> can carry: an instance of \<^verbatim>\<open>Error\<close> proper, of its subclasses
  \<^verbatim>\<open>SyntaxError\<close> and \<^verbatim>\<open>TypeError\<close> (each with its message), or any other value.
\<close>

datatype thrown =
    Error string
  | SyntaxError string
  | TypeError string
  | NonError json

text \<open>\<^verbatim>\<open>err instanceof Error\<close> and \<^verbatim>\<open>err.message\<close>.\<close>

fun instanceof_Error :: "thrown \<Rightarrow> bool" where
  "instanceof_Error (NonError v) = False"
| "instanceof_Error e = True"

fun message :: "thrown \<Rightarrow> string" where
  "message (Error m) = m"
| "message (SyntaxError m) = m"
| "message (TypeError m) = m"
| "message (NonError v) = []"

text \<open>
  The built-ins of the JavaScript engine that the code calls and that are not part of
  the repository. \<open>JSON_parse\<close> returns \<open>Inl m\<close> where \<^verbatim>\<open>JSON.parse\<close> throws a
  \<^verbatim>\<open>SyntaxError\<close> with message \<open>m\<close>. \<open>Number_multiply\<close> is \<^verbatim>\<open>*\<close> on Number
  values, which rounds the product. \<open>Inherited_toString k\<close> is the text that
  \<^verbatim>\<open>ToString\<close> gives for the member \<open>k\<close> of \<^verbatim>\<open>Object.prototype\<close>.
\<close>

record js_builtins =
  JSON_parse :: "string \<Rightarrow> string + json"
  JSON_stringify :: "json \<Rightarrow> string"
  Number_toString :: "real \<Rightarrow> string"
  Number_multiply :: "real \<Rightarrow> real \<Rightarrow> real"
  Inherited_toString :: "string \<Rightarrow> string"

text \<open>Truthiness (\<^verbatim>\<open>ToBoolean\<close>), as used by \<^verbatim>\<open>||\<close>, \<^verbatim>\<open>!\<close> and \<^verbatim>\<open>if\<close>.\<close>

fun truthy :: "json option \<Rightarrow> bool" where
  "truthy None = False"
| "truthy (Some JNull) = False"
| "truthy (Some (JBool b)) = b"
| "truthy (Some (JNumber n)) = (n \<noteq> 0)"
| "truthy (Some (JString s)) = (s \<noteq> [])"
| "truthy (Some (JArray xs)) = True"
| "truthy (Some (JObject kvs)) = True"

text \<open>\<^verbatim>\<open>a || b\<close>: the first operand when it is truthy, else the second.\<close>

definition or_else :: "json option \<Rightarrow> json option \<Rightarrow> json option" where
  "or_else a b = (if truthy a then a else b)"

text \<open>\<^verbatim>\<open>a ?? b\<close>: the second operand only when the first is \<^verbatim>\<open>null\<close> or \<^verbatim>\<open>undefined\<close>.\<close>

fun nullish :: "json option \<Rightarrow> json option \<Rightarrow> json option" where
  "nullish None b = b"
| "nullish (Some JNull) b = b"
| "nullish a b = a"

text \<open>
  \<^verbatim>\<open>v?.k\<close> for a property name \<open>k\<close> that no prototype defines (\<^verbatim>\<open>error\<close>,
  \<^verbatim>\<open>message\<close>, \<^verbatim>\<open>url\<close>, \<^verbatim>\<open>event_id\<close>): the own property of an object,
  \<^verbatim>\<open>undefined\<close> for every other value, also for \<^verbatim>\<open>null\<close> and \<^verbatim>\<open>undefined\<close>.
\<close>

fun opt_get :: "json option \<Rightarrow> string \<Rightarrow> json option" where
  "opt_get (Some (JObject kvs)) k = map_of kvs k"
| "opt_get v k = None"

fun intercalate :: "string \<Rightarrow> string list \<Rightarrow> string" where
  "intercalate sep [] = []"
| "intercalate sep [x] = x"
| "intercalate sep (x # y # ys) = x @ sep @ intercalate sep (y # ys)"

text \<open>
  \<^verbatim>\<open>ToString\<close> of a decoded value, as a template literal, a property key and
  \<^verbatim>\<open>new Error(v)\<close> apply it. A decoded object inherits \<^verbatim>\<open>toString\<close> from
  \<^verbatim>\<open>Object.prototype\<close>, which gives \<^verbatim>\<open>[object Object]\<close>; an own entry
  \<^verbatim>\<open>toString\<close> hides it and is not callable, \<^verbatim>\<open>valueOf\<close> (own or inherited) gives
  no primitive either, and the conversion throws a \<^verbatim>\<open>TypeError\<close>. An array joins the
  texts of its elements with commas, \<^verbatim>\<open>null\<close> elements as the empty string, and
  throws when the conversion of an element throws.
\<close>

fun js_toString :: "js_builtins \<Rightarrow> json \<Rightarrow> thrown + string"
  and join_texts :: "js_builtins \<Rightarrow> json list \<Rightarrow> thrown + string list" where
  "js_toString B JNull = Inr ''null''"
| "js_toString B (JBool b) = Inr (if b then ''true'' else ''false'')"
| "js_toString B (JNumber n) = Inr (Number_toString B n)"
| "js_toString B (JString s) = Inr s"
| "js_toString B (JArray xs) =
     (case join_texts B xs of
        Inl e \<Rightarrow> Inl e
      | Inr ts \<Rightarrow> Inr (intercalate '','' ts))"
| "js_toString B (JObject kvs) =
     (case map_of kvs ''toString'' of
        Some v \<Rightarrow> Inl (TypeError ''Cannot convert object to primitive value'')
      | None \<Rightarrow> Inr ''[object Object]'')"
| "join_texts B [] = Inr []"
| "join_texts B (x # xs) =
     (case (if x = JNull then Inr [] else js_toString B x) of
        Inl e \<Rightarrow> Inl e
      | Inr t \<Rightarrow>
          (case join_texts B xs of
             Inl e \<Rightarrow> Inl e
           | Inr ts \<Rightarrow> Inr (t # ts)))"

text \<open>
  \<^verbatim>\<open>throw new Error(v)\<close>: the \<^verbatim>\<open>Error\<close> whose message is the text of \<open>v\<close> (empty
  when \<open>v\<close> is \<^verbatim>\<open>undefined\<close>), or the \<^verbatim>\<open>TypeError\<close> of the conversion to text.
\<close>

fun Error_of :: "js_builtins \<Rightarrow> json option \<Rightarrow> thrown" where
  "Error_of B None = Error []"
| "Error_of B (Some v) = (case js_toString B v of Inr m \<Rightarrow> Error m | Inl e \<Rightarrow> e)"

subsection \<open>String methods\<close>

definition LF :: char where
  "LF = CHR 0x0A"

text \<open>\<^verbatim>\<open>s.split('\n')\<close>: never empty; \<open>n\<close> separators give \<open>n + 1\<close> pieces.\<close>

fun split_lines :: "string \<Rightarrow> string list" where
  "split_lines [] = [[]]"
| "split_lines (c # cs) =
     (if c = LF then [] # split_lines cs
      else (case split_lines cs of
              [] \<Rightarrow> [[c]]
            | l # ls \<Rightarrow> (c # l) # ls))"

text \<open>\<^verbatim>\<open>s.startsWith(p)\<close>.\<close>

definition startsWith :: "string \<Rightarrow> string \<Rightarrow> bool" where
  "startsWith s p = (take (length p) s = p)"

text \<open>
  White space and line terminators that \<^verbatim>\<open>trim\<close> strips, among the code units
  \<open>0x00..0xFF\<close>: TAB, LF, VT, FF, CR, SP and NBSP.
\<close>

definition is_space :: "char \<Rightarrow> bool" where
  "is_space c = (c \<in> set [CHR 0x09, CHR 0x0A, CHR 0x0B, CHR 0x0C, CHR 0x0D, CHR 0x20, CHR 0xA0])"

definition trim :: "string \<Rightarrow> string" where
  "trim s = rev (dropWhile is_space (rev (dropWhile is_space s)))"

section \<open>The event-stream extractor\<close>

text \<open>
  \<^verbatim>\<open>errorData?.error || errorData?.message || JSON.stringify(errorData) || 'Unknown error'\<close>
\<close>

definition errorMsg :: "js_builtins \<Rightarrow> json \<Rightarrow> json option" where
  "errorMsg B errorData =
     or_else (or_else (or_else (opt_get (Some errorData) ''error'')
                               (opt_get (Some errorData) ''message''))
                      (Some (JString (JSON_stringify B errorData))))
             (Some (JString ''Unknown error''))"

text \<open>
  The body of the \<^verbatim>\<open>error\<close> branch: the \<^verbatim>\<open>try\<close> block throws an \<^verbatim>\<open>Error\<close>, or
  the \<^verbatim>\<open>TypeError\<close> of making its message, and the \<^verbatim>\<open>catch\<close> rethrows either; a
  \<^verbatim>\<open>SyntaxError\<close> of \<^verbatim>\<open>JSON.parse\<close> is replaced by an \<^verbatim>\<open>Error\<close> carrying the data
  text.
\<close>

definition error_event :: "js_builtins \<Rightarrow> string \<Rightarrow> thrown" where
  "error_event B jsonData =
     (case JSON_parse B jsonData of
        Inr errorData \<Rightarrow> Error_of B (errorMsg B errorData)
      | Inl m \<Rightarrow> Error (if jsonData \<noteq> [] then jsonData else ''Unknown SSE error''))"

text \<open>
  \<^verbatim>\<open>extractCompleteEventData\<close> of \<^verbatim>\<open>apps/api/src/app.ts\<close>. The loop over the lines
  carries \<open>currentEvent\<close>; \<open>sseStream\<close> is kept for the final message.
\<close>

fun app_scan :: "js_builtins \<Rightarrow> string \<Rightarrow> string \<Rightarrow> string list \<Rightarrow> thrown + json" where
  "app_scan B sseStream currentEvent [] =
     Inl (Error (''Unexpected SSE response: '' @ take 300 sseStream))"
| "app_scan B sseStream currentEvent (line # lines) =
     (if startsWith line ''event:'' then
        app_scan B sseStream (trim (drop 6 line)) lines
      else if startsWith line ''data:'' then
        (let jsonData = trim (drop 5 line) in
         if currentEvent = ''complete'' then
           (case JSON_parse B jsonData of
              Inr v \<Rightarrow> Inr v
            | Inl m \<Rightarrow> Inl (SyntaxError m))
         else if currentEvent = ''error'' then
           Inl (error_event B jsonData)
         else app_scan B sseStream currentEvent lines)
      else app_scan B sseStream currentEvent lines)"

definition app_extractCompleteEventData :: "js_builtins \<Rightarrow> string \<Rightarrow> thrown + json" where
  "app_extractCompleteEventData B sseStream =
     app_scan B sseStream [] (split_lines sseStream)"

text \<open>
  \<^verbatim>\<open>extractCompleteEventData\<close> of \<^verbatim>\<open>apps/api/src/providers/huggingface.ts\<close>, the
  copy the HuggingFace provider calls.
\<close>

fun hf_scan :: "js_builtins \<Rightarrow> string \<Rightarrow> string \<Rightarrow> string list \<Rightarrow> thrown + json" where
  "hf_scan B sseStream currentEvent [] =
     Inl (Error (''Unexpected SSE response: '' @ take 300 sseStream))"
| "hf_scan B sseStream currentEvent (line # lines) =
     (if startsWith line ''event:'' then
        hf_scan B sseStream (trim (drop 6 line)) lines
      else if startsWith line ''data:'' then
        (let jsonData = trim (drop 5 line) in
         if currentEvent = ''complete'' then
           (case JSON_parse B jsonData of
              Inr v \<Rightarrow> Inr v
            | Inl m \<Rightarrow> Inl (SyntaxError m))
         else if currentEvent = ''error'' then
           Inl (error_event B jsonData)
         else hf_scan B sseStream currentEvent lines)
      else hf_scan B sseStream currentEvent lines)"

definition extractCompleteEventData :: "js_builtins \<Rightarrow> string \<Rightarrow> thrown + json" where
  "extractCompleteEventData B sseStream =
     hf_scan B sseStream [] (split_lines sseStream)"

subsection \<open>What the loop sees\<close>

text \<open>
  The data lines in the order the loop visits them, each paired with the value of
  \<open>currentEvent\<close> at that visit and with its trimmed data text.
\<close>

fun data_lines :: "string \<Rightarrow> string list \<Rightarrow> (string \<times> string) list" where
  "data_lines currentEvent [] = []"
| "data_lines currentEvent (line # lines) =
     (if startsWith line ''event:'' then data_lines (trim (drop 6 line)) lines
      else if startsWith line ''data:'' then
        (currentEvent, trim (drop 5 line)) # data_lines currentEvent lines
      else data_lines currentEvent lines)"

definition stream_events :: "string \<Rightarrow> (string \<times> string) list" where
  "stream_events sseStream = data_lines [] (split_lines sseStream)"

text \<open>A data line is terminal when its event is \<^verbatim>\<open>complete\<close> or \<^verbatim>\<open>error\<close>.\<close>

definition terminal :: "string \<times> string \<Rightarrow> bool" where
  "terminal p = (fst p = ''complete'' \<or> fst p = ''error'')"

definition is_complete :: "string \<times> string \<Rightarrow> bool" where
  "is_complete p = (fst p = ''complete'')"

section \<open>The HuggingFace provider\<close>

subsection \<open>Property access\<close>

text \<open>
  \<^verbatim>\<open>obj[key]\<close> on an object literal: the own property, else the member of
  \<^verbatim>\<open>Object.prototype\<close> of that name (a function, or the prototype itself for
  \<^verbatim>\<open>__proto__\<close>), else \<^verbatim>\<open>undefined\<close>.
\<close>

datatype 'a property = Own 'a | Inherited string | Undefined

definition Object_prototype_keys :: "string list" where
  "Object_prototype_keys =
     [''constructor'', ''hasOwnProperty'', ''isPrototypeOf'', ''propertyIsEnumerable'',
      ''toLocaleString'', ''toString'', ''valueOf'', ''__proto__'',
      ''__defineGetter__'', ''__defineSetter__'', ''__lookupGetter__'', ''__lookupSetter__'']"

definition object_get :: "(string \<times> 'a) list \<Rightarrow> string \<Rightarrow> 'a property" where
  "object_get obj key =
     (case map_of obj key of
        Some v \<Rightarrow> Own v
      | None \<Rightarrow> if key \<in> set Object_prototype_keys then Inherited key else Undefined)"

text \<open>The decimal digit of \<open>n < 10\<close>, and the decimal text of a natural number.\<close>

definition digit :: "nat \<Rightarrow> char" where
  "digit n = ''0123456789'' ! n"

fun decimal :: "nat \<Rightarrow> string" where
  "decimal n = (if n < 10 then [digit n] else decimal (n div 10) @ [digit (n mod 10)])"

text \<open>
  \<^verbatim>\<open>v[i]\<close> for an index \<open>i\<close>: reading a property of \<^verbatim>\<open>null\<close> throws a
  \<^verbatim>\<open>TypeError\<close>; an array and a string answer in range, an object by the key that
  is the index in decimal.
\<close>

fun js_index :: "json \<Rightarrow> nat \<Rightarrow> thrown + json option" where
  "js_index JNull i =
     Inl (TypeError (''Cannot read properties of null (reading '' @ [CHR 0x27] @ decimal i
                       @ [CHR 0x27] @ '')''))"
| "js_index (JArray xs) i = Inr (if i < length xs then Some (xs ! i) else None)"
| "js_index (JString s) i = Inr (if i < length s then Some (JString [s ! i]) else None)"
| "js_index (JObject kvs) i = Inr (map_of kvs (decimal i))"
| "js_index (JBool b) i = Inr None"
| "js_index (JNumber n) i = Inr None"

text \<open>\<^verbatim>\<open>typeof v === 'number'\<close>.\<close>

fun is_number :: "json option \<Rightarrow> bool" where
  "is_number (Some (JNumber n)) = True"
| "is_number v = False"

subsection \<open>Requests and the network\<close>

text \<open>
  \<^verbatim>\<open>ProviderGenerateRequest\<close>, with the values the fields hold when the code runs:
  the dispatch layer copies them from the decoded body (\<open>None\<close> is \<^verbatim>\<open>undefined\<close>).
\<close>

record ProviderGenerateRequest =
  model :: "json option"
  prompt :: "json option"
  negativePrompt :: "json option"
  width :: "json option"
  height :: "json option"
  steps :: "json option"
  seed :: "json option"
  guidanceScale :: "json option"
  authToken :: "string option"

record http_request =
  req_method :: string
  req_url :: string
  req_headers :: "(string \<times> string) list"
  req_body :: "string option"

text \<open>What \<^verbatim>\<open>fetch\<close> resolves to; reading the body (\<^verbatim>\<open>text()\<close>) can fail.\<close>

record http_response =
  res_ok :: bool
  res_status :: real
  res_text :: "thrown + string"

type_synonym fetch = "http_request \<Rightarrow> thrown + http_response"

text \<open>
  \<^verbatim>\<open>callGradioApi\<close> of the provider. \<open>baseUrl\<close> and \<open>endpoint\<close> are the texts that
  the template literals make of the arguments.
\<close>

definition callGradioApi ::
  "js_builtins \<Rightarrow> fetch \<Rightarrow> string \<Rightarrow> string \<Rightarrow> json list \<Rightarrow> string option \<Rightarrow> thrown + json" where
  "callGradioApi B fetch baseUrl endpoint data hfToken =
     (let headers = [(''Content-Type'', ''application/json'')] @
                    (case hfToken of
                       None \<Rightarrow> []
                     | Some t \<Rightarrow> if t \<noteq> [] then [(''Authorization'', ''Bearer '' @ t)] else [])
      in
      case fetch \<lparr> req_method = ''POST'',
                   req_url = baseUrl @ ''/gradio_api/call/'' @ endpoint,
                   req_headers = headers,
                   req_body = Some (JSON_stringify B (JObject [(''data'', JArray data)])) \<rparr> of
        Inl e \<Rightarrow> Inl e
      | Inr queue \<Rightarrow>
          if \<not> res_ok queue then
            (let errText = (case res_text queue of Inl e \<Rightarrow> [] | Inr t \<Rightarrow> t) in
             Inl (Error (''Queue request failed: '' @ Number_toString B (res_status queue)
                           @ '' - '' @ take 100 errText)))
          else
            (case res_text queue of
               Inl e \<Rightarrow> Inl e
             | Inr t \<Rightarrow>
                 (case JSON_parse B t of
                    Inl m \<Rightarrow> Inl (SyntaxError m)
                  | Inr queueData \<Rightarrow>
                      if queueData = JNull then
                        Inl (TypeError
                          ''Cannot read properties of null (reading 'event_id')'')
                      else
                        (case opt_get (Some queueData) ''event_id'' of
                           None \<Rightarrow> Inl (Error ''No event_id returned'')
                         | Some event_id \<Rightarrow>
                             if \<not> truthy (Some event_id) then
                               Inl (Error ''No event_id returned'')
                             else
                               (case js_toString B event_id of
                                  Inl e \<Rightarrow> Inl e
                                | Inr id_text \<Rightarrow>
                                    (case fetch \<lparr> req_method = ''GET'',
                                          req_url = baseUrl @ ''/gradio_api/call/''
                                                    @ endpoint @ ''/'' @ id_text,
                                          req_headers = headers,
                                          req_body = None \<rparr> of
                                       Inl e \<Rightarrow> Inl e
                                     | Inr result \<Rightarrow>
                                         (case res_text result of
                                            Inl e \<Rightarrow> Inl e
                                          | Inr t \<Rightarrow> extractCompleteEventData B t)))))))"

subsection \<open>Model configurations\<close>

record model_config =
  endpoint :: string
  buildData :: "ProviderGenerateRequest \<Rightarrow> json \<Rightarrow> json list"

text \<open>
  The value of an expression. In the positional list an \<^verbatim>\<open>undefined\<close> element
  counts as \<^verbatim>\<open>null\<close>, which is how \<^verbatim>\<open>JSON.stringify\<close> writes it; everywhere else
  \<open>elem\<close> is applied to the result of \<^verbatim>\<open>||\<close> or \<^verbatim>\<open>??\<close> with a default, which is
  never \<^verbatim>\<open>undefined\<close>.
\<close>

fun elem :: "json option \<Rightarrow> json" where
  "elem None = JNull"
| "elem (Some v) = v"

definition MODEL_CONFIGS :: "(string \<times> model_config) list" where
  "MODEL_CONFIGS =
     [(''z-image-turbo'',
         \<lparr> endpoint = ''generate_image'',
           buildData = (\<lambda>r seed. [elem (prompt r), elem (height r), elem (width r),
                                   elem (nullish (steps r) (Some (JNumber 9))), seed,
                                   JBool False]) \<rparr>),
      (''qwen-image-fast'',
         \<lparr> endpoint = ''generate_image'',
           buildData = (\<lambda>r seed. [elem (prompt r), seed, JBool True, JString ''1:1'',
                                   JNumber 3, elem (nullish (steps r) (Some (JNumber 8)))]) \<rparr>),
      (''ovis-image'',
         \<lparr> endpoint = ''generate'',
           buildData = (\<lambda>r seed. [elem (prompt r), elem (height r), elem (width r), seed,
                                   elem (nullish (steps r) (Some (JNumber 24))),
                                   JNumber 4]) \<rparr>),
      (''flux-1-schnell'',
         \<lparr> endpoint = ''infer'',
           buildData = (\<lambda>r seed. [elem (prompt r), seed, JBool False, elem (width r),
                                   elem (height r),
                                   elem (nullish (steps r) (Some (JNumber 8)))]) \<rparr>)]"

subsection \<open>generate\<close>

text \<open>
  \<^verbatim>\<open>request.seed ?? Math.floor(Math.random() * 2147483647)\<close>, where \<open>random\<close> is the
  value that \<^verbatim>\<open>Math.random()\<close> returns.
\<close>

definition generated_seed :: "js_builtins \<Rightarrow> real \<Rightarrow> int" where
  "generated_seed B random = \<lfloor>Number_multiply B random 2147483647\<rfloor>"

definition chosen_seed :: "js_builtins \<Rightarrow> real \<Rightarrow> ProviderGenerateRequest \<Rightarrow> json" where
  "chosen_seed B random request =
     elem (nullish (seed request) (Some (JNumber (of_int (generated_seed B random)))))"

text \<open>
  \<^verbatim>\<open>request.model || 'z-image-turbo'\<close>, as the property key it is used as; the
  conversion to a key can throw.
\<close>

definition modelId :: "js_builtins \<Rightarrow> ProviderGenerateRequest \<Rightarrow> thrown + string" where
  "modelId B request =
     js_toString B (elem (or_else (model request) (Some (JString ''z-image-turbo''))))"

text \<open>
  \<^verbatim>\<open>HF_SPACES[modelId] || HF_SPACES['z-image-turbo']\<close>. The table \<open>HF_SPACES\<close> is
  a constant of the shared package; an own entry is falsy when it is the empty string.
\<close>

fun truthy_url :: "string property \<Rightarrow> bool" where
  "truthy_url (Own u) = (u \<noteq> [])"
| "truthy_url (Inherited k) = True"
| "truthy_url Undefined = False"

definition resolve_baseUrl :: "(string \<times> string) list \<Rightarrow> string \<Rightarrow> string property" where
  "resolve_baseUrl HF_SPACES key =
     (if truthy_url (object_get HF_SPACES key) then object_get HF_SPACES key
      else object_get HF_SPACES ''z-image-turbo'')"

text \<open>\<^verbatim>\<open>MODEL_CONFIGS[modelId] || MODEL_CONFIGS['z-image-turbo']\<close>.\<close>

definition resolve_config :: "string \<Rightarrow> model_config property" where
  "resolve_config key =
     (case object_get MODEL_CONFIGS key of
        Undefined \<Rightarrow> object_get MODEL_CONFIGS ''z-image-turbo''
      | c \<Rightarrow> c)"

text \<open>The text of \<open>baseUrl\<close> in a template literal.\<close>

fun url_text :: "js_builtins \<Rightarrow> string property \<Rightarrow> string" where
  "url_text B (Own u) = u"
| "url_text B (Inherited k) = Inherited_toString B k"
| "url_text B Undefined = ''undefined''"

text \<open>
  The first statements of \<^verbatim>\<open>generate\<close>, up to the awaited \<^verbatim>\<open>callGradioApi\<close>.
  A member of \<^verbatim>\<open>Object.prototype\<close> has no \<^verbatim>\<open>buildData\<close>, so calling it throws
  before the backend is called.
\<close>

definition backend_call ::
  "js_builtins \<Rightarrow> fetch \<Rightarrow> (string \<times> string) list \<Rightarrow> real \<Rightarrow> ProviderGenerateRequest
     \<Rightarrow> thrown + json" where
  "backend_call B fetch HF_SPACES random request =
     (let seed0 = chosen_seed B random request in
      case modelId B request of
        Inl e \<Rightarrow> Inl e
      | Inr key \<Rightarrow>
          (let baseUrl = resolve_baseUrl HF_SPACES key in
           case resolve_config key of
             Own config \<Rightarrow>
               callGradioApi B fetch (url_text B baseUrl) (endpoint config)
                 (buildData config request seed0) (authToken request)
           | Inherited k \<Rightarrow> Inl (TypeError ''config.buildData is not a function'')
           | Undefined \<Rightarrow>
               Inl (TypeError ''Cannot read properties of undefined (reading 'endpoint')'')))"

text \<open>\<^verbatim>\<open>HuggingFaceProvider.generate\<close>; the result is the object \<^verbatim>\<open>{url, seed}\<close>.\<close>

definition generate ::
  "js_builtins \<Rightarrow> fetch \<Rightarrow> (string \<times> string) list \<Rightarrow> real \<Rightarrow> ProviderGenerateRequest
     \<Rightarrow> thrown + json" where
  "generate B fetch HF_SPACES random request =
     (case backend_call B fetch HF_SPACES random request of
        Inl e \<Rightarrow> Inl e
      | Inr data \<Rightarrow>
          (case js_index data 0 of
             Inl e \<Rightarrow> Inl e
           | Inr first \<Rightarrow>
               (case opt_get first ''url'' of
                  None \<Rightarrow> Inl (Error ''No image returned from HuggingFace'')
                | Some imageUrl \<Rightarrow>
                    if \<not> truthy (Some imageUrl) then
                      Inl (Error ''No image returned from HuggingFace'')
                    else
                      (case js_index data 1 of
                         Inl e \<Rightarrow> Inl e
                       | Inr second \<Rightarrow>
                           Inr (JObject
                                  [(''url'', imageUrl),
                                   (''seed'', if is_number second then elem second
                                              else chosen_seed B random request)])))))"

subsection \<open>Number values\<close>



section \<open>The dispatch layer\<close>

text \<open>
  What the \<^verbatim>\<open>/generate\<close> route reads of the incoming request: the body text and the
  lookup \<^verbatim>\<open>c.req.header(name)\<close>.
\<close>

record incoming =
  body_text :: string
  req_header :: "string \<Rightarrow> string option"

record response =
  status :: nat
  payload :: json

text \<open>An entry of \<^verbatim>\<open>PROVIDER_CONFIGS\<close>, with the fields the route reads.\<close>

record provider_config =
  name :: string
  requiresAuth :: bool
  authHeader :: "string option"

text \<open>A \<^verbatim>\<open>ValidationVerdict\<close>: \<^verbatim>\<open>{valid, error?}\<close>.\<close>

record verdict =
  valid :: bool
  error :: "json option"

type_synonym adapter = "ProviderGenerateRequest \<Rightarrow> thrown + json"

text \<open>
  The functions and tables that the route takes from the shared package and from the
  provider registry. \<open>PROVIDER_CONFIGS\<close> is the lookup by property key; whatever the
  table answers for a key, the route reads these three fields of it.
\<close>

record dependencies =
  hasProvider :: "json \<Rightarrow> bool"
  PROVIDER_CONFIGS :: "string \<Rightarrow> provider_config option"
  getProvider :: "json \<Rightarrow> thrown + adapter"
  validatePrompt :: "json option \<Rightarrow> verdict"
  validateDimensions :: "json \<Rightarrow> json \<Rightarrow> verdict"
  validateSteps :: "json \<Rightarrow> verdict"

text \<open>\<^verbatim>\<open>c.json({ error: e }, code)\<close>; an \<^verbatim>\<open>undefined\<close> field is left out.\<close>

definition error_response :: "nat \<Rightarrow> json option \<Rightarrow> response" where
  "error_response code e =
     \<lparr> status = code,
       payload = JObject (case e of None \<Rightarrow> [] | Some v \<Rightarrow> [(''error'', v)]) \<rparr>"

text \<open>\<^verbatim>\<open>body.provider || 'gitee'\<close>\<close>

definition providerId :: "json \<Rightarrow> json" where
  "providerId body = elem (or_else (opt_get (Some body) ''provider'') (Some (JString ''gitee'')))"

text \<open>\<^verbatim>\<open>providerConfig?.authHeader || 'X-API-Key'\<close>\<close>

definition auth_header_name :: "provider_config option \<Rightarrow> string" where
  "auth_header_name providerConfig =
     (case providerConfig of
        None \<Rightarrow> ''X-API-Key''
      | Some cfg \<Rightarrow>
          (case authHeader cfg of
             None \<Rightarrow> ''X-API-Key''
           | Some h \<Rightarrow> if h \<noteq> [] then h else ''X-API-Key''))"

text \<open>\<^verbatim>\<open>providerConfig?.requiresAuth && !authToken\<close>\<close>

definition auth_missing :: "provider_config option \<Rightarrow> string option \<Rightarrow> bool" where
  "auth_missing providerConfig token =
     (case providerConfig of
        None \<Rightarrow> False
      | Some cfg \<Rightarrow> requiresAuth cfg \<and> (token = None \<or> token = Some []))"

text \<open>The text of \<^verbatim>\<open>providerConfig.authHeader\<close> in the template literal.\<close>

fun header_text :: "string option \<Rightarrow> string" where
  "header_text None = ''undefined''"
| "header_text (Some h) = h"

definition body_width :: "json \<Rightarrow> json" where
  "body_width body = elem (nullish (opt_get (Some body) ''width'') (Some (JNumber 1024)))"

definition body_height :: "json \<Rightarrow> json" where
  "body_height body = elem (nullish (opt_get (Some body) ''height'') (Some (JNumber 1024)))"

text \<open>\<^verbatim>\<open>body.steps ?? body.num_inference_steps ?? 9\<close>\<close>

definition body_steps :: "json \<Rightarrow> json" where
  "body_steps body =
     elem (nullish (nullish (opt_get (Some body) ''steps'')
                            (opt_get (Some body) ''num_inference_steps''))
                   (Some (JNumber 9)))"

text \<open>The request handed to the adapter.\<close>

definition provider_request :: "json \<Rightarrow> string option \<Rightarrow> ProviderGenerateRequest" where
  "provider_request body token =
     \<lparr> model = opt_get (Some body) ''model'',
       prompt = opt_get (Some body) ''prompt'',
       negativePrompt = or_else (opt_get (Some body) ''negativePrompt'')
                                (opt_get (Some body) ''negative_prompt''),
       width = Some (body_width body),
       height = Some (body_height body),
       steps = Some (body_steps body),
       seed = opt_get (Some body) ''seed'',
       guidanceScale = opt_get (Some body) ''guidanceScale'',
       authToken = token \<rparr>"

text \<open>
  The \<^verbatim>\<open>try\<close> block of the route and its \<^verbatim>\<open>catch\<close>. The first component lists
  the requests on which an adapter's \<^verbatim>\<open>generate\<close> was called. The \<^verbatim>\<open>catch\<close> logs
  the provider id, whose conversion to text has succeeded before the \<^verbatim>\<open>try\<close> block is
  reached; the log is not part of the result.
\<close>

definition invoke ::
  "dependencies \<Rightarrow> json \<Rightarrow> ProviderGenerateRequest \<Rightarrow> ProviderGenerateRequest list \<times> response" where
  "invoke D pid request =
     (case getProvider D pid of
        Inl err \<Rightarrow>
          ([], error_response 500
                 (Some (JString (if instanceof_Error err then message err
                                 else ''Image generation failed''))))
      | Inr provider \<Rightarrow>
          (case provider request of
             Inr result \<Rightarrow> ([request], \<lparr> status = 200, payload = result \<rparr>)
           | Inl err \<Rightarrow>
               ([request], error_response 500
                  (Some (JString (if instanceof_Error err then message err
                                  else ''Image generation failed''))))))"

text \<open>
  The handler of \<^verbatim>\<open>POST /generate\<close>. \<open>Inl\<close> is an exception that leaves the handler:
  reading \<^verbatim>\<open>body.provider\<close> of a body that decodes to \<^verbatim>\<open>null\<close>, and converting
  the provider id to text for the message or for the key of \<^verbatim>\<open>PROVIDER_CONFIGS\<close>; all
  three stand before the \<^verbatim>\<open>try\<close> block.
\<close>

definition generate_route ::
  "js_builtins \<Rightarrow> dependencies \<Rightarrow> incoming
     \<Rightarrow> ProviderGenerateRequest list \<times> (thrown + response)" where
  "generate_route B D c =
     (case JSON_parse B (body_text c) of
        Inl m \<Rightarrow> ([], Inr (error_response 400 (Some (JString ''Invalid JSON body''))))
      | Inr body \<Rightarrow>
          if body = JNull then
            ([], Inl (TypeError ''Cannot read properties of null (reading 'provider')''))
          else if \<not> hasProvider D (providerId body) then
            (case js_toString B (providerId body) of
               Inl e \<Rightarrow> ([], Inl e)
             | Inr id_text \<Rightarrow>
                 ([], Inr (error_response 400
                        (Some (JString (''Invalid provider: '' @ id_text))))))
          else
            (case js_toString B (providerId body) of
               Inl e \<Rightarrow> ([], Inl e)
             | Inr key \<Rightarrow>
                   (let providerConfig = PROVIDER_CONFIGS D key;
                        token = req_header c (auth_header_name providerConfig)
                    in
                    if auth_missing providerConfig token then
                      ([], Inr (error_response 401
                             (Some (JString
                                (header_text (case providerConfig of
                                                None \<Rightarrow> None
                                              | Some cfg \<Rightarrow> authHeader cfg)
                                 @ '' is required for ''
                                 @ (case providerConfig of
                                      None \<Rightarrow> []
                                    | Some cfg \<Rightarrow> name cfg))))))
                    else if \<not> valid (validatePrompt D (opt_get (Some body) ''prompt'')) then
                      ([], Inr (error_response 400
                             (error (validatePrompt D (opt_get (Some body) ''prompt'')))))
                    else if \<not> valid (validateDimensions D (body_width body)
                                       (body_height body)) then
                      ([], Inr (error_response 400
                             (error (validateDimensions D (body_width body)
                                       (body_height body)))))
                    else if \<not> valid (validateSteps D (body_steps body)) then
                      ([], Inr (error_response 400
                             (error (validateSteps D (body_steps body)))))
                    else
                      (case invoke D (providerId body) (provider_request body token) of
                         (calls, r) \<Rightarrow> (calls, Inr r)))))"

section \<open>Engines, backends and dependencies for examples\<close>

text \<open>
  A JSON engine given by a finite table of texts and their values: a text of the table
  decodes to its value, any other text is a syntax error; a value of the table encodes
  to its text. The entries agree with \<^verbatim>\<open>JSON.parse\<close>. Numbers are printed as the
  naturals are, and products are exact.
\<close>

definition table_engine :: "(string \<times> json) list \<Rightarrow> js_builtins" where
  "table_engine tbl =
     \<lparr> JSON_parse = (\<lambda>s. case map_of tbl s of
                             Some v \<Rightarrow> Inr v
                           | None \<Rightarrow> Inl ''Unexpected token''),
       JSON_stringify = (\<lambda>v. case find (\<lambda>p. snd p = v) tbl of
                                 Some p \<Rightarrow> fst p
                               | None \<Rightarrow> ''null''),
       Number_toString = (\<lambda>n. decimal (nat \<lfloor>n\<rfloor>)),
       Number_multiply = (\<lambda>x y. x * y),
       Inherited_toString = (\<lambda>k. ''function '' @ k @ ''() { [native code] }'') \<rparr>"

definition example_json :: "(string \<times> json) list" where
  \<open>example_json =
     [(''[1]'', JArray [JNumber 1]),
      (''{"error":"X"}'', JObject [(''error'', JString ''X'')]),
      (''{"event_id":"e1"}'', JObject [(''event_id'', JString ''e1'')]),
      (''{"provider":"huggingface","prompt":"cat"}'',
         JObject [(''provider'', JString ''huggingface''), (''prompt'', JString ''cat'')]),
      (''{"provider":"nowhere","prompt":"cat"}'',
         JObject [(''provider'', JString ''nowhere''), (''prompt'', JString ''cat'')]),
      (''{"prompt":"cat"}'', JObject [(''prompt'', JString ''cat'')]),
      (''{"provider":"gitee","prompt":"cat"}'',
         JObject [(''provider'', JString ''gitee''), (''prompt'', JString ''cat'')]),
      (''{"provider":"huggingface","model":"constructor","prompt":"cat"}'',
         JObject [(''provider'', JString ''huggingface''), (''model'', JString ''constructor''),
                  (''prompt'', JString ''cat'')]),
      (''null'', JNull),
      (''{"error":{"toString":1}}'',
         JObject [(''error'', JObject [(''toString'', JNumber 1)])]),
      (''{"provider":{"toString":1},"prompt":"cat"}'',
         JObject [(''provider'', JObject [(''toString'', JNumber 1)]),
                  (''prompt'', JString ''cat'')]),
      (''[{"url":""}, 42]'', JArray [JObject [(''url'', JString [])], JNumber 42]),
      (''[{"url":"https://x/y.png"}, 42]'',
         JArray [JObject [(''url'', JString ''https://x/y.png'')], JNumber 42])]\<close>

definition example_engine :: js_builtins where
  "example_engine = table_engine example_json"

text \<open>\<^verbatim>\<open>lines.join('\n')\<close>, to write example streams.\<close>

definition join_lines :: "string list \<Rightarrow> string" where
  "join_lines ls = intercalate [LF] ls"

text \<open>
  A backend that accepts every job with the event id \<^verbatim>\<open>e1\<close> and answers the
  second request with the given stream.
\<close>

definition stub_backend :: "string \<Rightarrow> fetch" where
  \<open>stub_backend stream request =
     Inr \<lparr> res_ok = True, res_status = 200,
           res_text = Inr (if req_method request = ''POST'' then ''{"event_id":"e1"}''
                           else stream) \<rparr>\<close>

definition example_spaces :: "(string \<times> string) list" where
  "example_spaces =
     [(''z-image-turbo'', ''https://turbo.example''), (''upscaler'', ''https://up.example'')]"

definition example_request :: ProviderGenerateRequest where
  "example_request =
     \<lparr> model = Some (JString ''z-image-turbo''), prompt = Some (JString ''cat''),
       negativePrompt = None, width = Some (JNumber 1024), height = Some (JNumber 1024),
       steps = Some (JNumber 9), seed = Some (JNumber 7), guidanceScale = None,
       authToken = None \<rparr>"

text \<open>
  Imports with two providers, \<^verbatim>\<open>gitee\<close> (requires \<^verbatim>\<open>X-API-Key\<close>) and
  \<^verbatim>\<open>huggingface\<close> (no requirement), validators that accept everything, and one
  adapter for every provider.
\<close>

definition example_imports :: "adapter \<Rightarrow> dependencies" where
  "example_imports a =
     \<lparr> hasProvider = (\<lambda>p. p = JString ''gitee'' \<or> p = JString ''huggingface''),
       PROVIDER_CONFIGS = (\<lambda>k.
          if k = ''gitee'' then
            Some \<lparr> name = ''Gitee AI'', requiresAuth = True, authHeader = Some ''X-API-Key'' \<rparr>
          else if k = ''huggingface'' then
            Some \<lparr> name = ''HuggingFace'', requiresAuth = False,
                   authHeader = Some ''X-HF-Token'' \<rparr>
          else None),
       getProvider = (\<lambda>p. Inr a),
       validatePrompt = (\<lambda>p. \<lparr> valid = True, error = None \<rparr>),
       validateDimensions = (\<lambda>w h. \<lparr> valid = True, error = None \<rparr>),
       validateSteps = (\<lambda>s. \<lparr> valid = True, error = None \<rparr>) \<rparr>"

definition no_headers :: "string \<Rightarrow> string option" where
  "no_headers h = None"

section \<open>Properties of the extractor\<close>

lemma app_scan_hf_scan: "app_scan B s cur ls = hf_scan B s cur ls"
  by (induction ls arbitrary: cur) (simp_all add: Let_def)

lemma hf_scan_find:
  "hf_scan B s cur ls =
     (case find terminal (data_lines cur ls) of
        None \<Rightarrow> Inl (Error (''Unexpected SSE response: '' @ take 300 s))
      | Some p \<Rightarrow>
          if fst p = ''complete'' then
            (case JSON_parse B (snd p) of Inr v \<Rightarrow> Inr v | Inl m \<Rightarrow> Inl (SyntaxError m))
          else Inl (error_event B (snd p)))"
  by (induction ls arbitrary: cur) (simp_all add: terminal_def Let_def)

lemma extract_find:
  "extractCompleteEventData B s =
     (case find terminal (stream_events s) of
        None \<Rightarrow> Inl (Error (''Unexpected SSE response: '' @ take 300 s))
      | Some p \<Rightarrow>
          if fst p = ''complete'' then
            (case JSON_parse B (snd p) of Inr v \<Rightarrow> Inr v | Inl m \<Rightarrow> Inl (SyntaxError m))
          else Inl (error_event B (snd p)))"
  by (simp add: extractCompleteEventData_def stream_events_def hf_scan_find)

lemma app_extract_find:
  "app_extractCompleteEventData B s =
     (case find terminal (stream_events s) of
        None \<Rightarrow> Inl (Error (''Unexpected SSE response: '' @ take 300 s))
      | Some p \<Rightarrow>
          if fst p = ''complete'' then
            (case JSON_parse B (snd p) of Inr v \<Rightarrow> Inr v | Inl m \<Rightarrow> Inl (SyntaxError m))
          else Inl (error_event B (snd p)))"
  by (simp add: app_extractCompleteEventData_def stream_events_def hf_scan_find app_scan_hf_scan)

lemma split_lines_nonempty: "split_lines s \<noteq> []"
  by (induction s) (auto split: list.splits)

lemma split_lines_append: "split_lines (a @ LF # b) = split_lines a @ split_lines b"
proof (induction a)
  case Nil
  show ?case by simp
next
  case (Cons c a)
  obtain l ls where "split_lines a = l # ls"
    using split_lines_nonempty [of a] by (cases "split_lines a") auto
  with Cons show ?case by simp
qed

lemma find_data_lines_append:
  "find P (data_lines cur ls) = Some p \<Longrightarrow> find P (data_lines cur (ls @ ls')) = Some p"
  by (induction ls arbitrary: cur) (auto split: if_splits)

lemma stream_events_extend:
  "find P (stream_events s) = Some p \<Longrightarrow> find P (stream_events (s @ LF # t)) = Some p"
  by (simp add: stream_events_def split_lines_append find_data_lines_append)

lemma errorMsg_value:
  "errorMsg B v = Some
     (if truthy (opt_get (Some v) ''error'') then the (opt_get (Some v) ''error'')
      else if truthy (opt_get (Some v) ''message'') then the (opt_get (Some v) ''message'')
      else if JSON_stringify B v \<noteq> [] then JString (JSON_stringify B v)
      else JString ''Unknown error'')"
proof (cases "opt_get (Some v) ''error''")
  case None
  then show ?thesis
    by (cases "opt_get (Some v) ''message''") (simp_all add: errorMsg_def or_else_def)
next
  case (Some e)
  then show ?thesis
    by (cases "opt_get (Some v) ''message''") (simp_all add: errorMsg_def or_else_def)
qed

lemma error_event_text:
  "error_event B d =
     (case JSON_parse B d of
        Inl m \<Rightarrow> Error (if d = [] then ''Unknown SSE error'' else d)
      | Inr v \<Rightarrow>
          (case js_toString B
                  (if truthy (opt_get (Some v) ''error'')
                     then the (opt_get (Some v) ''error'')
                   else if truthy (opt_get (Some v) ''message'')
                     then the (opt_get (Some v) ''message'')
                   else if JSON_stringify B v \<noteq> [] then JString (JSON_stringify B v)
                   else JString ''Unknown error'') of
             Inr m \<Rightarrow> Error m
           | Inl e \<Rightarrow> e))"
  by (cases "JSON_parse B d") (simp_all add: error_event_def errorMsg_value)

text \<open>
  C1, as amended. When the first terminal data line of the stream is a \<^verbatim>\<open>complete\<close>
  line, both extractors JSON-decode its trimmed data and return the decoded value, or
  let the \<^verbatim>\<open>SyntaxError\<close> of the decoder pass when the data does not decode; progress
  events before it do not matter, and whatever follows the line is not looked at.
\<close>

theorem complete_first_terminal:
  assumes "find terminal (stream_events s) = Some (''complete'', d)"
  shows "extractCompleteEventData B s =
           (case JSON_parse B d of Inr v \<Rightarrow> Inr v | Inl m \<Rightarrow> Inl (SyntaxError m))
       \<and> app_extractCompleteEventData B s =
           (case JSON_parse B d of Inr v \<Rightarrow> Inr v | Inl m \<Rightarrow> Inl (SyntaxError m))
       \<and> extractCompleteEventData B (s @ LF # t) = extractCompleteEventData B s
       \<and> app_extractCompleteEventData B (s @ LF # t) = app_extractCompleteEventData B s"
  using assms stream_events_extend [OF assms, of t]
  by (simp add: extract_find app_extract_find)

text \<open>
  The theorem at a stream with a progress event before the \<^verbatim>\<open>complete\<close> event and
  an \<^verbatim>\<open>error\<close> event after it.
\<close>

theorem complete_first_terminal_witness:
  "find terminal (stream_events (join_lines
      [''event: generating'', ''data: null'', ''event: complete'', ''data: [1]'',
       ''event: error'', ''data: late''])) = Some (''complete'', ''[1]'')
   \<and> extractCompleteEventData example_engine (join_lines
      [''event: generating'', ''data: null'', ''event: complete'', ''data: [1]'',
       ''event: error'', ''data: late'']) = Inr (JArray [JNumber 1])"
proof -
  have h: "find terminal (stream_events (join_lines
      [''event: generating'', ''data: null'', ''event: complete'', ''data: [1]'',
       ''event: error'', ''data: late''])) = Some (''complete'', ''[1]'')"
    by code_simp
  have p: "JSON_parse example_engine ''[1]'' = Inr (JArray [JNumber 1])"
    by code_simp
  show ?thesis
    using h p complete_first_terminal [OF h, of example_engine] by simp
qed

text \<open>
  C1 as stated fails: this stream has a \<^verbatim>\<open>complete\<close> data line that decodes to
  \<^verbatim>\<open>[1]\<close>, and the extractor throws the error of the \<^verbatim>\<open>error\<close> event that
  comes first.
\<close>

theorem complete_after_error_counterexample:
  "find is_complete (stream_events (join_lines
      [''event: error'', ''data: boom'', ''event: complete'', ''data: [1]''])) =
     Some (''complete'', ''[1]'')
   \<and> JSON_parse example_engine ''[1]'' = Inr (JArray [JNumber 1])
   \<and> extractCompleteEventData example_engine (join_lines
      [''event: error'', ''data: boom'', ''event: complete'', ''data: [1]'']) =
     Inl (Error ''boom'')"
  by code_simp

text \<open>
  C2, as amended. When the first terminal data line is an \<^verbatim>\<open>error\<close> line, both
  extractors throw. If the data decodes, the value of the message is the first truthy
  one of the decoded value's \<^verbatim>\<open>error\<close> field, its \<^verbatim>\<open>message\<close> field and the
  re-encoded value, and what is thrown is an \<^verbatim>\<open>Error\<close> whose message is the text of
  that value; a value without a text (it holds a decoded object with an own
  \<^verbatim>\<open>toString\<close> entry) makes the \<^verbatim>\<open>TypeError\<close> of the conversion the thrown error. If
  the data does not decode, what is thrown is an \<^verbatim>\<open>Error\<close> whose message is the
  trimmed data text, or \<^verbatim>\<open>Unknown SSE error\<close> when that text is empty.
\<close>

theorem error_first_terminal:
  assumes "find terminal (stream_events s) = Some (''error'', d)"
  shows "extractCompleteEventData B s = Inl
           (case JSON_parse B d of
              Inl m \<Rightarrow> Error (if d = [] then ''Unknown SSE error'' else d)
            | Inr v \<Rightarrow>
                (case js_toString B
                        (if truthy (opt_get (Some v) ''error'')
                           then the (opt_get (Some v) ''error'')
                         else if truthy (opt_get (Some v) ''message'')
                           then the (opt_get (Some v) ''message'')
                         else if JSON_stringify B v \<noteq> [] then JString (JSON_stringify B v)
                         else JString ''Unknown error'') of
                   Inr m \<Rightarrow> Error m
                 | Inl e \<Rightarrow> e))
       \<and> app_extractCompleteEventData B s = extractCompleteEventData B s"
  using assms by (simp add: extract_find app_extract_find error_event_text)

text \<open>
  The theorem at the data \<^verbatim>\<open>{"error":"X"}\<close>, where the message is \<^verbatim>\<open>X\<close>, and at the
  data \<^verbatim>\<open>{"error":{"toString":1}}\<close>, where the conversion throws.
\<close>

theorem error_first_terminal_witness:
  \<open>find terminal (stream_events (join_lines
      [''event: heartbeat'', ''data: null'', ''event: error'', ''data: {"error":"X"}''])) =
     Some (''error'', ''{"error":"X"}'')
   \<and> extractCompleteEventData example_engine (join_lines
      [''event: heartbeat'', ''data: null'', ''event: error'', ''data: {"error":"X"}'']) =
     Inl (Error ''X'')
   \<and> find terminal (stream_events (join_lines
      [''event: error'', ''data: {"error":{"toString":1}}''])) =
     Some (''error'', ''{"error":{"toString":1}}'')
   \<and> extractCompleteEventData example_engine (join_lines
      [''event: error'', ''data: {"error":{"toString":1}}'']) =
     Inl (TypeError ''Cannot convert object to primitive value'')\<close>
proof -
  have h: \<open>find terminal (stream_events (join_lines
      [''event: heartbeat'', ''data: null'', ''event: error'', ''data: {"error":"X"}''])) =
     Some (''error'', ''{"error":"X"}'')\<close>
    by code_simp
  have p: \<open>JSON_parse example_engine ''{"error":"X"}'' =
             Inr (JObject [(''error'', JString ''X'')])\<close>
    by code_simp
  have h': \<open>find terminal (stream_events (join_lines
      [''event: error'', ''data: {"error":{"toString":1}}''])) =
     Some (''error'', ''{"error":{"toString":1}}'')\<close>
    by code_simp
  have p': \<open>JSON_parse example_engine ''{"error":{"toString":1}}'' =
              Inr (JObject [(''error'', JObject [(''toString'', JNumber 1)])])\<close>
    by code_simp
  show ?thesis
    using h p h' p' error_first_terminal [OF h, of example_engine]
      error_first_terminal [OF h', of example_engine]
    by simp
qed

text \<open>
  C2 as stated fails: the data of this \<^verbatim>\<open>error\<close> line is empty and does not decode,
  and the message is not the data text but \<^verbatim>\<open>Unknown SSE error\<close>.
\<close>

theorem error_empty_data_counterexample:
  "find terminal (stream_events (join_lines [''event: error'', ''data:''])) =
     Some (''error'', [])
   \<and> JSON_parse example_engine [] = Inl ''Unexpected token''
   \<and> extractCompleteEventData example_engine (join_lines [''event: error'', ''data:'']) =
     Inl (Error ''Unknown SSE error'')"
  by code_simp

text \<open>
  C3. When no data line of the stream is under a \<^verbatim>\<open>complete\<close> or an \<^verbatim>\<open>error\<close>
  event, both extractors throw an \<^verbatim>\<open>Error\<close> whose message is the fixed prefix
  followed by the first 300 code units of the input, and by nothing else.
\<close>

theorem no_terminal_event:
  assumes "find terminal (stream_events s) = None"
  shows "extractCompleteEventData B s =
           Inl (Error (''Unexpected SSE response: '' @ take 300 s))
       \<and> app_extractCompleteEventData B s =
           Inl (Error (''Unexpected SSE response: '' @ take 300 s))
       \<and> length (take 300 s) \<le> 300"
  using assms by (simp add: extract_find app_extract_find)

text \<open>The theorem at a stream of 422 code units with a progress event only.\<close>

theorem no_terminal_event_witness:
  "find terminal (stream_events (''event: progress'' @ [LF] @ ''data: '' @ replicate 400 (CHR ''a''))) = None
   \<and> extractCompleteEventData example_engine
        (''event: progress'' @ [LF] @ ''data: '' @ replicate 400 (CHR ''a'')) =
      Inl (Error (''Unexpected SSE response: '' @ ''event: progress'' @ [LF] @ ''data: ''
                    @ replicate 278 (CHR ''a'')))"
proof -
  have h: "find terminal (stream_events (''event: progress'' @ [LF] @ ''data: '' @ replicate 400 (CHR ''a''))) = None"
    by code_simp
  have t: "take 300 (''event: progress'' @ [LF] @ ''data: '' @ replicate 400 (CHR ''a''))
           = ''event: progress'' @ [LF] @ ''data: '' @ replicate 278 (CHR ''a'')"
    by simp
  show ?thesis
    using h t no_terminal_event [OF h, of example_engine] by simp
qed

text \<open>
  C10. The extractor of the dispatch app and the extractor of the HuggingFace provider
  agree on every input text: the same decoded value, or the same thrown error.
\<close>

theorem extractors_equal:
  "app_extractCompleteEventData B sseStream = extractCompleteEventData B sseStream"
  by (simp add: app_extractCompleteEventData_def extractCompleteEventData_def app_scan_hf_scan)

section \<open>Properties of the HuggingFace provider\<close>

lemma modelId_string [simp]:
  "s \<noteq> [] \<Longrightarrow> modelId B (request\<lparr>model := Some (JString s)\<rparr>) = Inr s"
  by (simp add: modelId_def or_else_def)

text \<open>
  C4 asks that a model id that is not empty and not a recognized model never makes model
  resolution fail, and resolves the default model. The model id \<^verbatim>\<open>constructor\<close> is
  not a recognized model, and for every engine, backend, table of spaces and request
  with that model id \<^verbatim>\<open>generate\<close> throws a \<^verbatim>\<open>TypeError\<close> before any backend call:
  \<^verbatim>\<open>MODEL_CONFIGS['constructor']\<close> is the inherited \<^verbatim>\<open>Object\<close>, which is truthy, so
  the fallback is not taken.
\<close>

theorem generate_inherited_model:
  "generate B fetch HF_SPACES random (request\<lparr>model := Some (JString ''constructor'')\<rparr>) =
     Inl (TypeError ''config.buildData is not a function'')"
  by (simp add: generate_def backend_call_def resolve_config_def object_get_def
        MODEL_CONFIGS_def Object_prototype_keys_def)

text \<open>
  The same through the route: the body
  \<^verbatim>\<open>{"provider":"huggingface","model":"constructor","prompt":"cat"}\<close> passes every check
  and is answered 500.
\<close>

lemma route_inherited_model:
  \<open>generate_route example_engine
     (example_imports (generate example_engine (stub_backend []) example_spaces (1 / 2)))
     \<lparr> body_text = ''{"provider":"huggingface","model":"constructor","prompt":"cat"}'',
       req_header = no_headers \<rparr> =
     ([provider_request
         (JObject [(''provider'', JString ''huggingface''), (''model'', JString ''constructor''),
                   (''prompt'', JString ''cat'')]) None],
      Inr \<lparr> status = 500,
            payload = JObject [(''error'', JString ''config.buildData is not a function'')] \<rparr>)\<close>
  by code_simp

text \<open>
  The fallback is taken for a key that is neither an own key of the two tables nor a
  member of \<^verbatim>\<open>Object.prototype\<close>. A key that only the table of spaces has, such as
  \<^verbatim>\<open>upscaler\<close>, gets its own base URL and the default model's configuration.
\<close>

lemma resolve_unknown_model:
  assumes "key \<notin> set (map fst MODEL_CONFIGS)" "key \<notin> set Object_prototype_keys"
    and "map_of HF_SPACES key = None"
  shows "resolve_config key = object_get MODEL_CONFIGS ''z-image-turbo''"
    and "resolve_baseUrl HF_SPACES key = object_get HF_SPACES ''z-image-turbo''"
  using assms
  by (simp_all add: resolve_config_def resolve_baseUrl_def object_get_def MODEL_CONFIGS_def)

lemma resolve_upscaler:
  "resolve_baseUrl example_spaces ''upscaler'' = Own ''https://up.example''"
  "resolve_config ''upscaler'' = object_get MODEL_CONFIGS ''z-image-turbo''"
  by (simp_all add: resolve_config_def resolve_baseUrl_def object_get_def MODEL_CONFIGS_def
        example_spaces_def Object_prototype_keys_def)

text \<open>
  C5, as amended. When the backend result is an array whose first element is an object
  with a non-empty string \<^verbatim>\<open>url\<close>, \<^verbatim>\<open>generate\<close> returns that url, and as seed the
  second element of the array when it is a number, else the requested or generated
  seed.
\<close>

theorem generate_result:
  assumes "backend_call B fetch HF_SPACES random request = Inr (JArray (JObject kvs # rest))"
    and "map_of kvs ''url'' = Some (JString u)" and "u \<noteq> []"
  shows "generate B fetch HF_SPACES random request =
           Inr (JObject [(''url'', JString u),
                         (''seed'', case rest of
                                      JNumber n # others \<Rightarrow> JNumber n
                                    | _ \<Rightarrow> chosen_seed B random request)])"
proof (cases rest)
  case Nil
  with assms show ?thesis by (simp add: generate_def)
next
  case (Cons x xs)
  with assms show ?thesis by (cases x) (simp_all add: generate_def)
qed

text \<open>
  The theorem at the result \<^verbatim>\<open>[{"url":"https://x/y.png"}, 42]\<close> and the requested seed 7:
  the seed of the backend is returned.
\<close>

theorem generate_result_witness:
  \<open>backend_call example_engine
      (stub_backend (join_lines
         [''event: complete'', ''data: [{"url":"https://x/y.png"}, 42]'', []]))
      example_spaces (1/2) example_request =
     Inr (JArray [JObject [(''url'', JString ''https://x/y.png'')], JNumber 42])
   \<and> seed example_request = Some (JNumber 7)
   \<and> generate example_engine
      (stub_backend (join_lines
         [''event: complete'', ''data: [{"url":"https://x/y.png"}, 42]'', []]))
      example_spaces (1/2) example_request =
     Inr (JObject [(''url'', JString ''https://x/y.png''), (''seed'', JNumber 42)])\<close>
proof -
  have h: \<open>backend_call example_engine
      (stub_backend (join_lines
         [''event: complete'', ''data: [{"url":"https://x/y.png"}, 42]'', []]))
      example_spaces (1/2) example_request =
     Inr (JArray (JObject [(''url'', JString ''https://x/y.png'')] # [JNumber 42]))\<close>
    by code_simp
  have u: "map_of [(''url'', JString ''https://x/y.png'')] ''url'' = Some (JString ''https://x/y.png'')"
    by simp
  have n: "''https://x/y.png'' \<noteq> []" by simp
  have s: "seed example_request = Some (JNumber 7)"
    by (simp add: example_request_def)
  show ?thesis
    using h s generate_result [OF h u n] by simp
qed

text \<open>
  C5 as stated fails: the first element of this result is an object with a string
  \<^verbatim>\<open>url\<close>, the empty string, and \<^verbatim>\<open>generate\<close> throws instead of returning it.
\<close>

theorem generate_empty_url_counterexample:
  \<open>backend_call example_engine
      (stub_backend (join_lines [''event: complete'', ''data: [{"url":""}, 42]'', []]))
      example_spaces (1/2) example_request =
     Inr (JArray [JObject [(''url'', JString [])], JNumber 42])
   \<and> generate example_engine
      (stub_backend (join_lines [''event: complete'', ''data: [{"url":""}, 42]'', []]))
      example_spaces (1/2) example_request =
     Inl (Error ''No image returned from HuggingFace'')\<close>
  by code_simp

subsection \<open>The generated seed\<close>





lemma chosen_seed_supplied:
  "seed request = Some v \<Longrightarrow> v \<noteq> JNull \<Longrightarrow> chosen_seed B random request = v"
  by (cases v) (simp_all add: chosen_seed_def)




section \<open>Properties of the dispatch layer\<close>




text \<open>
  C7. When the provider of the request has a configuration that requires auth and names
  an auth header, and the request does not carry that header, the route answers 401
  with the message \<^verbatim>\<open>HEADER is required for NAME\<close>, and no adapter is called.
\<close>

theorem missing_auth_header:
  assumes "JSON_parse B (body_text c) = Inr body" and "body \<noteq> JNull"
    and "hasProvider D (providerId body)"
    and "js_toString B (providerId body) = Inr key"
    and "PROVIDER_CONFIGS D key = Some cfg"
    and "requiresAuth cfg" and "authHeader cfg = Some h" and "h \<noteq> []"
    and "req_header c h = None"
  shows "generate_route B D c =
           ([], Inr \<lparr> status = 401,
                      payload = JObject [(''error'',
                                  JString (h @ '' is required for '' @ name cfg))] \<rparr>)"
  using assms
  by (simp add: generate_route_def auth_header_name_def auth_missing_def error_response_def)

text \<open>The theorem at a body without provider and a request without headers.\<close>

theorem missing_auth_header_witness:
  \<open>generate_route example_engine (example_imports (generate example_engine
        (stub_backend []) example_spaces (1 / 2)))
     \<lparr> body_text = ''{"prompt":"cat"}'', req_header = no_headers \<rparr> =
     ([], Inr \<lparr> status = 401,
                payload = JObject [(''error'', JString ''X-API-Key is required for Gitee AI'')] \<rparr>)\<close>
proof -
  let ?D = "example_imports (generate example_engine (stub_backend []) example_spaces (1 / 2))"
  let ?c = \<open>\<lparr> body_text = ''{"prompt":"cat"}'', req_header = no_headers \<rparr>\<close>
  let ?body = "JObject [(''prompt'', JString ''cat'')]"
  let ?cfg = "\<lparr> name = ''Gitee AI'', requiresAuth = True, authHeader = Some ''X-API-Key'' \<rparr>"
  have p: "JSON_parse example_engine (body_text ?c) = Inr ?body" by code_simp
  have n: "?body \<noteq> JNull" by simp
  have i: "providerId ?body = JString ''gitee''" by (simp add: providerId_def or_else_def)
  have k: "hasProvider ?D (providerId ?body)" by (simp add: i example_imports_def)
  have t: "js_toString example_engine (providerId ?body) = Inr ''gitee''" by (simp add: i)
  have g: "PROVIDER_CONFIGS ?D ''gitee'' = Some ?cfg"
    by (simp add: example_imports_def)
  have r: "requiresAuth ?cfg" by simp
  have a: "authHeader ?cfg = Some ''X-API-Key''" by simp
  have e: "''X-API-Key'' \<noteq> []" by simp
  have h: "req_header ?c ''X-API-Key'' = None" by (simp add: no_headers_def)
  show ?thesis
    using missing_auth_header [OF p n k t g r a e h] by simp
qed




text \<open>
  A provider id without a text, the decoded object \<^verbatim>\<open>{"toString":1}\<close>: the
  conversion for the message throws, and the \<^verbatim>\<open>TypeError\<close> leaves the handler.
\<close>

lemma route_provider_without_text:
  \<open>generate_route example_engine
       (example_imports (generate example_engine (stub_backend []) example_spaces (1 / 2)))
       \<lparr> body_text = ''{"provider":{"toString":1},"prompt":"cat"}'',
         req_header = no_headers \<rparr> =
     ([], Inl (TypeError ''Cannot convert object to primitive value''))\<close>
  by code_simp

text \<open>
  C9, as amended. For a request that passes the provider, auth and validation checks,
  the route answers 200 with the adapter's result when the adapter returns; when the
  registry or the adapter throws an instance of \<^verbatim>\<open>Error\<close> (also a \<^verbatim>\<open>TypeError\<close> or a
  \<^verbatim>\<open>SyntaxError\<close>), it answers 500 with that error's message; when they throw any
  other value, it answers 500 with \<^verbatim>\<open>Image generation failed\<close>. In every case the
  handler returns a response.
\<close>

theorem generate_outcomes:
  assumes "JSON_parse B (body_text c) = Inr body" and "body \<noteq> JNull"
    and "hasProvider D (providerId body)"
    and "js_toString B (providerId body) = Inr key"
    and "\<not> auth_missing (PROVIDER_CONFIGS D key)
             (req_header c (auth_header_name (PROVIDER_CONFIGS D key)))"
    and "valid (validatePrompt D (opt_get (Some body) ''prompt''))"
    and "valid (validateDimensions D (body_width body) (body_height body))"
    and "valid (validateSteps D (body_steps body))"
    and "request = provider_request body
                     (req_header c (auth_header_name (PROVIDER_CONFIGS D key)))"
  shows "generate_route B D c =
          (case getProvider D (providerId body) of
             Inl err \<Rightarrow>
               ([], Inr \<lparr> status = 500,
                          payload = JObject [(''error'',
                            JString (if instanceof_Error err then message err
                                     else ''Image generation failed''))] \<rparr>)
           | Inr provider \<Rightarrow>
               ([request],
                Inr (case provider request of
                       Inr result \<Rightarrow> \<lparr> status = 200, payload = result \<rparr>
                     | Inl err \<Rightarrow>
                         \<lparr> status = 500,
                           payload = JObject [(''error'',
                             JString (if instanceof_Error err then message err
                                      else ''Image generation failed''))] \<rparr>)))
       \<and> (\<exists>r. snd (generate_route B D c) = Inr r)"
  using assms
  by (simp add: generate_route_def invoke_def error_response_def Let_def
           split: sum.splits)

text \<open>
  The theorem at a request for the HuggingFace provider whose backend answers
  \<^verbatim>\<open>[{"url":"https://x/y.png"}, 42]\<close>: the route answers 200 with that url and seed.
\<close>

theorem generate_outcomes_witness:
  \<open>generate_route example_engine
     (example_imports (generate example_engine
        (stub_backend (join_lines
           [''event: complete'', ''data: [{"url":"https://x/y.png"}, 42]'', []]))
        example_spaces (1 / 2)))
     \<lparr> body_text = ''{"provider":"huggingface","prompt":"cat"}'', req_header = no_headers \<rparr> =
     ([provider_request
         (JObject [(''provider'', JString ''huggingface''), (''prompt'', JString ''cat'')]) None],
      Inr \<lparr> status = 200,
            payload = JObject [(''url'', JString ''https://x/y.png''),
                               (''seed'', JNumber 42)] \<rparr>)\<close>
proof -
  let ?a = \<open>generate example_engine
        (stub_backend (join_lines
           [''event: complete'', ''data: [{"url":"https://x/y.png"}, 42]'', []]))
        example_spaces (1 / 2)\<close>
  let ?D = "example_imports ?a"
  let ?c = \<open>\<lparr> body_text = ''{"provider":"huggingface","prompt":"cat"}'',
              req_header = no_headers \<rparr>\<close>
  let ?body = "JObject [(''provider'', JString ''huggingface''), (''prompt'', JString ''cat'')]"
  let ?cfg = "PROVIDER_CONFIGS ?D ''huggingface''"
  have p: "JSON_parse example_engine (body_text ?c) = Inr ?body" by code_simp
  have n: "?body \<noteq> JNull" by simp
  have i: "providerId ?body = JString ''huggingface''"
    by (simp add: providerId_def or_else_def)
  have k: "hasProvider ?D (providerId ?body)" by (simp add: i example_imports_def)
  have t: "req_header ?c (auth_header_name ?cfg) = None" by (simp add: no_headers_def)
  have m: "\<not> auth_missing ?cfg (req_header ?c (auth_header_name ?cfg))"
    by (simp add: i example_imports_def auth_missing_def)
  have v1: "valid (validatePrompt ?D (opt_get (Some ?body) ''prompt''))"
    by (simp add: example_imports_def)
  have v2: "valid (validateDimensions ?D (body_width ?body) (body_height ?body))"
    by (simp add: example_imports_def)
  have v3: "valid (validateSteps ?D (body_steps ?body))"
    by (simp add: example_imports_def)
  have r: "provider_request ?body None =
           provider_request ?body (req_header ?c (auth_header_name ?cfg))"
    by (simp only: t)
  have g: "getProvider ?D (providerId ?body) = Inr ?a" by (simp add: example_imports_def)
  have o: "?a (provider_request ?body None) =
           Inr (JObject [(''url'', JString ''https://x/y.png''), (''seed'', JNumber 42)])"
    by code_simp
  have y: "js_toString example_engine (providerId ?body) = Inr ''huggingface''"
    by (simp add: i)
  show ?thesis
    using generate_outcomes [OF p n k y m v1 v2 v3 r] g o by simp
qed

text \<open>
  C9 as stated fails: the backend of this request answers the payload \<^verbatim>\<open>null\<close>, the
  provider throws a \<^verbatim>\<open>TypeError\<close> on reading the first element, an exception it does
  not signal itself, and the route answers 500 with the message of the \<^verbatim>\<open>TypeError\<close>,
  not with the generic message.
\<close>

theorem unexpected_error_counterexample:
  \<open>generate example_engine
     (stub_backend (join_lines [''event: complete'', ''data: null'']))
     example_spaces (1 / 2)
     (provider_request
        (JObject [(''provider'', JString ''huggingface''), (''prompt'', JString ''cat'')]) None) =
     Inl (TypeError ''Cannot read properties of null (reading '0')'')
   \<and> generate_route example_engine
     (example_imports (generate example_engine
        (stub_backend (join_lines [''event: complete'', ''data: null'']))
        example_spaces (1 / 2)))
     \<lparr> body_text = ''{"provider":"huggingface","prompt":"cat"}'', req_header = no_headers \<rparr> =
     ([provider_request
         (JObject [(''provider'', JString ''huggingface''), (''prompt'', JString ''cat'')]) None],
      Inr \<lparr> status = 500,
            payload = JObject [(''error'',
               JString ''Cannot read properties of null (reading '0')'')] \<rparr>)\<close>
  by code_simp

end
